theory Spec2Isabelle
  imports Main "HOL-Library.Word" "HOL-Library.Extended_Nat" "HOL-Library.AList"
begin

section \<open>The fixture \<^verbatim>\<open>test_c/false_positive_safe.c\<close>\<close>

text \<open>
  The file under verification:
  \<^verbatim>\<open>
  void safe_examples() {
      char buf[32];

      snprintf(buf, sizeof(buf), "Hello %s", "World");  // safe replacement
      printf("Value: %d\n", 42);                        // literal first arg
      memcpy(buf, "abcd", 4);                           // fits buffer
  }
  \<close>
  The function is embedded over an explicit memory of byte objects, a standard-output
  stream and a trace of the library calls made. The three library functions are not part
  of the repository; they are modelled after their ISO C contracts, restricted to the
  conversions the file uses, with every violated precondition (undefined behaviour in C)
  as an error value. A call that fails the way ISO C documents (an output error of
  \<open>printf\<close>) is not undefined behaviour: it returns its error indication and the
  program goes on.
\<close>

subsection \<open>Memory, output stream and call trace\<close>

text \<open>
  A byte of memory is either initialised with a character or indeterminate (\<open>None\<close>),
  as the bytes of an automatic array without initialiser are. An object is an array of
  bytes; the memory is an association list from object identifiers to objects; a pointer
  is an object identifier with a byte offset into it.
\<close>

type_synonym cell = "char option"
type_synonym object = "cell list"
type_synonym ptr = "nat \<times> nat"

datatype error = InvalidPointer | BufferOverflow | OutOfBoundsRead | BadFormat

text \<open>Variadic arguments: a string (\<^verbatim>\<open>char *\<close>) or an \<^verbatim>\<open>int\<close> of 32 bits.\<close>

datatype farg = ArgStr string | ArgInt "32 word"

text \<open>A library call with its actual arguments.\<close>

datatype libcall =
    Snprintf ptr nat string "farg list"
  | Printf string "farg list"
  | Memcpy ptr object nat

text \<open>
  One entry of the trace per completed library call: the call, how many bytes
  its destination could take (the rest of the destination object from the pointer on;
  unbounded for the output stream), how many bytes it wrote there, and whether the call
  reported failure to its caller.
\<close>

record event =
  call :: libcall
  capacity :: enat
  written :: nat
  failed :: bool

text \<open>
  The world a call runs in: the memory, the text transmitted to standard output so far,
  whether the environment accepts output on that stream (it does not when the stream is
  closed or its device is full), and the trace.
\<close>

record world =
  mem :: "(nat \<times> object) list"
  stdout :: string
  stdout_ok :: bool
  trace :: "event list"

definition NUL :: char where
  "NUL = CHR 0x00"

text \<open>A string literal is an array of its characters followed by the terminator.\<close>

definition string_literal :: "string \<Rightarrow> object" where
  "string_literal s = map Some (s @ [NUL])"

text \<open>
  Reading an object as a C string: the characters before the first terminator. Reading
  an indeterminate byte, or running off the end of the object, yields no string.
\<close>

fun cstring :: "object \<Rightarrow> string option" where
  "cstring [] = None"
| "cstring (None # cs) = None"
| "cstring (Some c # cs) = (if c = NUL then Some [] else map_option ((#) c) (cstring cs))"

subsection \<open>Automatic storage\<close>

definition fresh :: "(nat \<times> object) list \<Rightarrow> nat" where
  "fresh m = Suc (foldr max (map fst m) 0)"

text \<open>
  Entering a block with \<^verbatim>\<open>char buf[n];\<close> creates a new object of \<open>n\<close> indeterminate
  bytes; leaving the block ends its lifetime.
\<close>

definition alloca :: "nat \<Rightarrow> world \<Rightarrow> ptr \<times> world" where
  "alloca n w = (let k = fresh (mem w) in ((k, 0), w\<lparr>mem := (k, replicate n None) # mem w\<rparr>))"

definition release :: "ptr \<Rightarrow> world \<Rightarrow> world" where
  "release p w = w\<lparr>mem := AList.delete (fst p) (mem w)\<rparr>"

definition deref :: "ptr \<Rightarrow> world \<Rightarrow> object option" where
  "deref p w = map_option (drop (snd p)) (map_of (mem w) (fst p))"

text \<open>The bytes available at a pointer: none where it designates no live object.\<close>

definition room :: "ptr \<Rightarrow> world \<Rightarrow> nat" where
  "room p w = (case deref p w of None \<Rightarrow> 0 | Some bs \<Rightarrow> length bs)"

subsection \<open>The library calls\<close>

text \<open>
  Every write to memory goes through \<open>store_bytes\<close>: the pointer must designate a live
  object, and the bytes must fit between the pointer and the end of that object. A write
  past the end is undefined behaviour in C; here it is the error \<open>BufferOverflow\<close>.
\<close>

definition store_bytes :: "libcall \<Rightarrow> ptr \<Rightarrow> cell list \<Rightarrow> world \<Rightarrow> error + world" where
  "store_bytes f p bs w =
     (case map_of (mem w) (fst p) of
        None \<Rightarrow> Inl InvalidPointer
      | Some ob \<Rightarrow>
          if snd p + length bs \<le> length ob
          then Inr (w\<lparr>mem := AList.update (fst p)
                              (take (snd p) ob @ bs @ drop (snd p + length bs) ob) (mem w),
                      trace := trace w @
                        [\<lparr>call = f, capacity = enat (room p w), written = length bs,
                          failed = False\<rparr>]\<rparr>)
          else Inl BufferOverflow)"

text \<open>Decimal output of \<^verbatim>\<open>%d\<close>.\<close>

definition digit :: "nat \<Rightarrow> char" where
  "digit d = ''0123456789'' ! (d mod 10)"

function dec_nat :: "nat \<Rightarrow> string" where
  "dec_nat n = (if n < 10 then [digit n] else dec_nat (n div 10) @ [digit n])"
  by pat_completeness auto
termination
  by (relation "measure id") auto

declare dec_nat.simps [simp del]

definition dec_int :: "int \<Rightarrow> string" where
  "dec_int i = (if i < 0 then CHR ''-'' # dec_nat (nat (- i)) else dec_nat (nat i))"

definition emit :: "string \<Rightarrow> (string \<times> farg list) option \<Rightarrow> (string \<times> farg list) option" where
  "emit s r = map_option (\<lambda>(out, rest). (s @ out, rest)) r"

text \<open>
  Formatted output, for the conversions \<^verbatim>\<open>%s\<close>, \<^verbatim>\<open>%d\<close> and \<^verbatim>\<open>%%\<close>: the text
  produced and the arguments left over. A conversion without an argument of its type is
  undefined behaviour (\<open>None\<close>), as is any other conversion in this model; arguments
  beyond the format's needs are ignored by the callers, as C does.
\<close>

fun format :: "string \<Rightarrow> farg list \<Rightarrow> (string \<times> farg list) option" where
  "format [] args = Some ([], args)"
| "format [c] args = (if c = CHR ''%'' then None else Some ([c], args))"
| "format (c # d # cs) args =
     (if c \<noteq> CHR ''%'' then emit [c] (format (d # cs) args)
      else if d = CHR ''%'' then emit ''%'' (format cs args)
      else if d = CHR ''s'' then
        (case args of ArgStr s # rest \<Rightarrow> emit s (format cs rest) | _ \<Rightarrow> None)
      else if d = CHR ''d'' then
        (case args of ArgInt i # rest \<Rightarrow> emit (dec_int (sint i)) (format cs rest) | _ \<Rightarrow> None)
      else None)"

text \<open>
  \<^verbatim>\<open>snprintf(s, n, fmt, ...)\<close>: with \<open>n = 0\<close> nothing is written; otherwise the first
  \<open>n - 1\<close> characters of the formatted text and a terminator are stored at \<open>s\<close>. The
  value returned is the length of the whole formatted text, as a natural number (texts
  longer than \<^verbatim>\<open>INT_MAX\<close> are not distinguished).
\<close>

definition snprintf :: "ptr \<Rightarrow> nat \<Rightarrow> string \<Rightarrow> farg list \<Rightarrow> world \<Rightarrow> error + (nat \<times> world)" where
  "snprintf s n fmt args w =
     (case format fmt args of
        None \<Rightarrow> Inl BadFormat
      | Some (text, _) \<Rightarrow>
          if n = 0
          then Inr (length text,
                    w\<lparr>trace := trace w @
                        [\<lparr>call = Snprintf s n fmt args, capacity = enat (room s w),
                          written = 0, failed = False\<rparr>]\<rparr>)
          else (case store_bytes (Snprintf s n fmt args) s
                       (map Some (take (n - 1) text @ [NUL])) w of
                  Inl e \<Rightarrow> Inl e
                | Inr w' \<Rightarrow> Inr (length text, w')))"

text \<open>
  \<^verbatim>\<open>printf(fmt, ...)\<close>: where the stream accepts output, the formatted text is
  appended to standard output and its length is returned. Where it does not, the call
  fails with an output error: it returns a negative value and nothing is transmitted.
  (ISO C leaves open how much of the text is transmitted before an output error; the
  model takes the case of a stream that accepts nothing.) An output error is a result
  of the call, not undefined behaviour.
\<close>

definition printf :: "string \<Rightarrow> farg list \<Rightarrow> world \<Rightarrow> error + (int \<times> world)" where
  "printf fmt args w =
     (case format fmt args of
        None \<Rightarrow> Inl BadFormat
      | Some (text, _) \<Rightarrow>
          if stdout_ok w
          then Inr (int (length text),
                    w\<lparr>stdout := stdout w @ text,
                      trace := trace w @
                        [\<lparr>call = Printf fmt args, capacity = \<infinity>,
                          written = length text, failed = False\<rparr>]\<rparr>)
          else Inr (- 1,
                    w\<lparr>trace := trace w @
                        [\<lparr>call = Printf fmt args, capacity = \<infinity>,
                          written = 0, failed = True\<rparr>]\<rparr>))"

text \<open>
  \<^verbatim>\<open>memcpy(dest, src, n)\<close>: the first \<open>n\<close> bytes of the source are stored at \<open>dest\<close>.
  The source is passed as the bytes from the source pointer to the end of its object;
  reading more than that is undefined behaviour. The sources in this file are string
  literals, objects of their own, so source and destination never overlap.
\<close>

definition memcpy :: "ptr \<Rightarrow> object \<Rightarrow> nat \<Rightarrow> world \<Rightarrow> error + (ptr \<times> world)" where
  "memcpy dest src n w =
     (if length src < n then Inl OutOfBoundsRead
      else case store_bytes (Memcpy dest src n) dest (take n src) w of
             Inl e \<Rightarrow> Inl e
           | Inr w' \<Rightarrow> Inr (dest, w'))"

subsection \<open>The function\<close>

text \<open>An expression statement drops the value of the call.\<close>

definition discard :: "error + ('a \<times> world) \<Rightarrow> error + world" where
  "discard r = (case r of Inl e \<Rightarrow> Inl e | Inr (_, w) \<Rightarrow> Inr w)"

definition sizeof_buf :: nat where
  "sizeof_buf = 32"

text \<open>The three statements of the body, in source order, over the address of \<open>buf\<close>.\<close>

definition body :: "(ptr \<Rightarrow> world \<Rightarrow> error + world) list" where
  "body =
     [\<lambda>buf w. discard (snprintf buf sizeof_buf ''Hello %s'' [ArgStr ''World''] w),
      \<lambda>buf w. discard (printf ''Value: %d\<newline>'' [ArgInt 42] w),
      \<lambda>buf w. discard (memcpy buf (string_literal ''abcd'') 4 w)]"

text \<open>Statements run in sequence; undefined behaviour in one ends the run.\<close>

fun exec :: "(ptr \<Rightarrow> world \<Rightarrow> error + world) list \<Rightarrow> ptr \<Rightarrow> world \<Rightarrow> error + world" where
  "exec [] buf w = Inr w"
| "exec (st # sts) buf w = (case st buf w of Inl e \<Rightarrow> Inl e | Inr w' \<Rightarrow> exec sts buf w')"

text \<open>
  The state inside the function after its first \<open>k\<close> statements: the address of \<open>buf\<close>
  and the world, \<open>buf\<close> still alive.
\<close>

definition state_after :: "nat \<Rightarrow> world \<Rightarrow> error + (ptr \<times> world)" where
  "state_after k w =
     (let (buf, w0) = alloca sizeof_buf w in
      case exec (take k body) buf w0 of Inl e \<Rightarrow> Inl e | Inr w' \<Rightarrow> Inr (buf, w'))"

text \<open>The address \<open>buf\<close> has in a run of the function from \<open>w\<close>.\<close>

definition buf_of :: "world \<Rightarrow> ptr" where
  "buf_of w = fst (alloca sizeof_buf w)"

definition safe_examples :: "world \<Rightarrow> error + world" where
  "safe_examples w =
     (let (buf, w0) = alloca sizeof_buf w in
      case exec body buf w0 of Inl e \<Rightarrow> Inl e | Inr w' \<Rightarrow> Inr (release buf w'))"

subsection \<open>Observations\<close>

text \<open>
  The events of a whole run, \<open>buf\<close> being the address of the local array: every
  other argument is a constant of the source.
\<close>

definition snprintf_event :: "ptr \<Rightarrow> event" where
  "snprintf_event buf =
     \<lparr>call = Snprintf buf 32 ''Hello %s'' [ArgStr ''World''], capacity = 32, written = 12,
      failed = False\<rparr>"

text \<open>The event of the \<open>printf\<close> call, by whether the stream accepts output.\<close>

definition printf_event :: "bool \<Rightarrow> event" where
  "printf_event ok =
     \<lparr>call = Printf ''Value: %d\<newline>'' [ArgInt 42], capacity = \<infinity>,
      written = (if ok then 10 else 0), failed = (\<not> ok)\<rparr>"

definition memcpy_event :: "ptr \<Rightarrow> event" where
  "memcpy_event buf =
     \<lparr>call = Memcpy buf (string_literal ''abcd'') 4, capacity = 32, written = 4,
      failed = False\<rparr>"

text \<open>A call stays within its destination when it writes fewer bytes than fit there.\<close>

definition within_capacity :: "event \<Rightarrow> bool" where
  "within_capacity e = (enat (written e) < capacity e)"

text \<open>The initialised bytes of an object, each with its index.\<close>

definition initialised :: "object \<Rightarrow> (nat \<times> char) list" where
  "initialised ob = List.map_filter (\<lambda>(i, c). map_option (Pair i) c) (List.enumerate 0 ob)"

text \<open>What a run from \<open>w\<close> to \<open>w'\<close> added to standard output and to the trace.\<close>

definition new_output :: "world \<Rightarrow> world \<Rightarrow> string" where
  "new_output w w' = drop (length (stdout w)) (stdout w')"

definition new_events :: "world \<Rightarrow> world \<Rightarrow> event list" where
  "new_events w w' = drop (length (trace w)) (trace w')"

text \<open>
  What a whole run of the function from \<open>w\<close> adds to standard output and to the
  trace; nothing where the run ends in undefined behaviour.
\<close>

definition run_output :: "world \<Rightarrow> string option" where
  "run_output w = (case safe_examples w of Inl e \<Rightarrow> None | Inr w' \<Rightarrow> Some (new_output w w'))"

definition run_events :: "world \<Rightarrow> event list option" where
  "run_events w = (case safe_examples w of Inl e \<Rightarrow> None | Inr w' \<Rightarrow> Some (new_events w w'))"

text \<open>A run in which the function returns and none of its calls reported failure.\<close>

definition no_call_fails :: "world \<Rightarrow> bool" where
  "no_call_fails w =
     (case run_events w of None \<Rightarrow> False | Some es \<Rightarrow> list_all (\<lambda>e. \<not> failed e) es)"

text \<open>The functions the translation unit defines, by name.\<close>

definition translation_unit :: "(string \<times> (world \<Rightarrow> error + world)) list" where
  "translation_unit = [(''safe_examples'', safe_examples)]"

section \<open>Bounds of the library models\<close>

text \<open>
  Whatever the arguments, a call that completes has written within its destination:
  \<open>snprintf\<close> at most \<open>n\<close> bytes, \<open>memcpy\<close> exactly \<open>n\<close>.
\<close>

lemma store_bytes_room:
  "case store_bytes f p bs w of
     Inl e \<Rightarrow> True
   | Inr w' \<Rightarrow>
       trace w' = trace w @
         [\<lparr>call = f, capacity = enat (room p w), written = length bs, failed = False\<rparr>] \<and>
       length bs \<le> room p w"
  by (auto simp: store_bytes_def room_def deref_def split: option.splits)

lemma snprintf_bounded:
  "case snprintf s n fmt args w of
     Inl e \<Rightarrow> True
   | Inr (r, w') \<Rightarrow>
       \<exists>e. trace w' = trace w @ [e] \<and> written e \<le> n \<and> enat (written e) \<le> capacity e"
  by (auto simp: snprintf_def store_bytes_def room_def deref_def
      split: option.splits sum.splits if_splits)

lemma memcpy_exact:
  "case memcpy d src n w of
     Inl e \<Rightarrow> True
   | Inr (r, w') \<Rightarrow>
       r = d \<and> (\<exists>e. trace w' = trace w @ [e] \<and> written e = n \<and> enat n \<le> capacity e)"
  by (auto simp: memcpy_def store_bytes_def room_def deref_def
      split: option.splits sum.splits if_splits)

lemma map_filter_indeterminate:
  "List.map_filter (\<lambda>(i, c). map_option (Pair i) c) (List.enumerate k (replicate n None)) = []"
  by (induction n arbitrary: k) (simp_all add: List.map_filter_simps)

lemma initialised_prefix:
  "initialised (map Some s @ replicate n None) = List.enumerate 0 s"
proof -
  have "List.map_filter (\<lambda>(i, c). map_option (Pair i) c)
          (List.enumerate k (map Some s @ replicate n None)) = List.enumerate k s" for k
    by (induction s arbitrary: k) (simp_all add: List.map_filter_simps map_filter_indeterminate)
  then show ?thesis by (simp add: initialised_def)
qed

lemma initialised_final:
  "map snd (initialised (string_literal ''abcdo World'' @ replicate 20 None)) =
     ''abcdo World'' @ [NUL]"
  unfolding string_literal_def initialised_prefix by simp

section \<open>Evaluating the calls\<close>

text \<open>
  What each statement of the body computes, for an arbitrary surrounding world \<open>w\<close> and
  an arbitrary identifier \<open>k\<close> of the object \<open>buf\<close>.
\<close>

lemma dec_42: "dec_int 42 = ''42''"
  by (simp add: dec_int_def dec_nat.simps digit_def)

lemma format_hello: "format ''Hello %s'' [ArgStr ''World''] = Some (''Hello World'', [])"
  by (simp add: emit_def)

lemma format_value: "format ''Value: %d\<newline>'' [ArgInt 42] = Some (''Value: 42\<newline>'', [])"
  by (simp add: emit_def dec_42)

lemma fresh_notin: "fresh m \<notin> fst ` set m"
proof -
  have "k \<in> fst ` set m \<Longrightarrow> k \<le> foldr max (map fst m) 0" for k
    by (induction m) (auto simp: le_max_iff_disj)
  then show ?thesis unfolding fresh_def by fastforce
qed

lemma alloca_eq:
  "alloca n \<lparr>mem = m, stdout = out, stdout_ok = ok, trace = tr\<rparr> =
     ((fresh m, 0), \<lparr>mem = (fresh m, replicate n None) # m, stdout = out, stdout_ok = ok, trace = tr\<rparr>)"
  by (simp add: alloca_def Let_def)

lemma replicate_32: "replicate 32 x = replicate 12 x @ replicate 20 x"
  by (simp flip: replicate_add)

lemma run_snprintf:
  "discard (snprintf (k, 0) sizeof_buf ''Hello %s'' [ArgStr ''World'']
      \<lparr>mem = (k, replicate sizeof_buf None) # m, stdout = out, stdout_ok = ok, trace = tr\<rparr>)
   = Inr \<lparr>mem = (k, string_literal ''Hello World'' @ replicate 20 None) # m,
          stdout = out, stdout_ok = ok,
          trace = tr @ [\<lparr>call = Snprintf (k, 0) 32 ''Hello %s'' [ArgStr ''World''],
                         capacity = 32, written = 12, failed = False\<rparr>]\<rparr>"
  by (simp add: snprintf_def emit_def store_bytes_def sizeof_buf_def discard_def
      string_literal_def replicate_32 room_def deref_def flip: numeral_eq_enat)

lemma run_printf:
  "discard (printf ''Value: %d\<newline>'' [ArgInt 42] \<lparr>mem = m, stdout = out, stdout_ok = ok, trace = tr\<rparr>)
   = Inr \<lparr>mem = m,
          stdout = out @ (if ok then ''Value: 42\<newline>'' else []), stdout_ok = ok,
          trace = tr @ [printf_event ok]\<rparr>"
  by (simp add: printf_def emit_def dec_42 discard_def printf_event_def)

lemma run_memcpy:
  "discard (memcpy (k, 0) (string_literal ''abcd'') 4
      \<lparr>mem = (k, string_literal ''Hello World'' @ replicate 20 None) # m,
       stdout = out, stdout_ok = ok, trace = tr\<rparr>)
   = Inr \<lparr>mem = (k, string_literal ''abcdo World'' @ replicate 20 None) # m,
          stdout = out, stdout_ok = ok,
          trace = tr @ [\<lparr>call = Memcpy (k, 0) (string_literal ''abcd'') 4,
                         capacity = 32, written = 4, failed = False\<rparr>]\<rparr>"
  by (simp add: memcpy_def store_bytes_def discard_def string_literal_def room_def deref_def
      flip: numeral_eq_enat)

lemma exec_body:
  "exec body (k, 0) \<lparr>mem = (k, replicate sizeof_buf None) # m, stdout = out, stdout_ok = ok, trace = tr\<rparr> =
     Inr \<lparr>mem = (k, string_literal ''abcdo World'' @ replicate 20 None) # m,
          stdout = out @ (if ok then ''Value: 42\<newline>'' else []), stdout_ok = ok,
          trace = tr @ [snprintf_event (k, 0), printf_event ok, memcpy_event (k, 0)]\<rparr>"
  by (simp add: body_def run_snprintf run_printf run_memcpy
      snprintf_event_def memcpy_event_def)

lemma buf_of_eq: "buf_of w = (fresh (mem w), 0)"
  by (simp add: buf_of_def alloca_def Let_def)

lemma snd_buf_of: "snd (buf_of w) = 0"
  by (simp add: buf_of_eq)


text \<open>
  The state after each prefix of the body, and after the return, for an arbitrary world.
\<close>

lemma after_0:
  "state_after 0 w = Inr (buf_of w, w\<lparr>mem := (fst (buf_of w), replicate 32 None) # mem w\<rparr>)"
  by (cases w) (simp add: state_after_def alloca_eq sizeof_buf_def buf_of_eq)

lemma after_1:
  "state_after 1 w = Inr (buf_of w,
     w\<lparr>mem := (fst (buf_of w), string_literal ''Hello World'' @ replicate 20 None) # mem w,
       trace := trace w @ [snprintf_event (buf_of w)]\<rparr>)"
  by (cases w) (simp add: state_after_def alloca_eq body_def run_snprintf buf_of_eq
      snprintf_event_def)

lemma after_2:
  "state_after 2 w = Inr (buf_of w,
     w\<lparr>mem := (fst (buf_of w), string_literal ''Hello World'' @ replicate 20 None) # mem w,
       stdout := stdout w @ (if stdout_ok w then ''Value: 42\<newline>'' else []),
       trace := trace w @ [snprintf_event (buf_of w), printf_event (stdout_ok w)]\<rparr>)"
  by (cases w) (simp add: state_after_def alloca_eq body_def numeral_2_eq_2 run_snprintf
      run_printf buf_of_eq snprintf_event_def)

lemma after_ge_3:
  "state_after (3 + n) w = Inr (buf_of w,
     w\<lparr>mem := (fst (buf_of w), string_literal ''abcdo World'' @ replicate 20 None) # mem w,
       stdout := stdout w @ (if stdout_ok w then ''Value: 42\<newline>'' else []),
       trace := trace w @ [snprintf_event (buf_of w), printf_event (stdout_ok w), memcpy_event (buf_of w)]\<rparr>)"
proof -
  have "take (3 + n) body = body" by (simp add: body_def)
  then show ?thesis by (cases w) (simp add: state_after_def alloca_eq exec_body buf_of_eq)
qed

lemma after_3:
  "state_after 3 w = Inr (buf_of w,
     w\<lparr>mem := (fst (buf_of w), string_literal ''abcdo World'' @ replicate 20 None) # mem w,
       stdout := stdout w @ (if stdout_ok w then ''Value: 42\<newline>'' else []),
       trace := trace w @ [snprintf_event (buf_of w), printf_event (stdout_ok w), memcpy_event (buf_of w)]\<rparr>)"
  using after_ge_3 [of 0 w] by simp

lemma after_return:
  "safe_examples w =
     Inr (w\<lparr>stdout := stdout w @ (if stdout_ok w then ''Value: 42\<newline>'' else []),
            trace := trace w @ [snprintf_event (buf_of w), printf_event (stdout_ok w), memcpy_event (buf_of w)]\<rparr>)"
  by (cases w) (simp add: safe_examples_def alloca_eq exec_body release_def fresh_notin buf_of_eq)

lemma prefix_cases: "k = 0 \<or> k = 1 \<or> k = 2 \<or> (\<exists>n. k = 3 + n)" for k :: nat
  by presburger

lemma within_events:
  "within_capacity (snprintf_event b)" "within_capacity (printf_event ok)"
  "within_capacity (memcpy_event b)"
  by (simp_all add: within_capacity_def snprintf_event_def printf_event_def memcpy_event_def flip: numeral_eq_enat)

lemma run_output_eq:
  "run_output w = Some (if stdout_ok w then ''Value: 42\<newline>'' else [])"
  unfolding run_output_def after_return by (simp add: new_output_def)

lemma run_events_eq:
  "run_events w =
     Some [snprintf_event (buf_of w), printf_event (stdout_ok w), memcpy_event (buf_of w)]"
  unfolding run_events_def after_return by (simp add: new_events_def)

lemma failed_events:
  "failed (snprintf_event b) = False" "failed (printf_event ok) = (\<not> ok)"
  "failed (memcpy_event b) = False"
  by (simp_all add: snprintf_event_def printf_event_def memcpy_event_def)

text \<open>
  Two runs evaluated from the definitions alone. In the first the world already holds an
  object and some output, and the stream accepts output: the new array gets identifier 8,
  the older object and the earlier output are kept, and the array is gone at the end. In
  the second the stream accepts nothing: \<open>printf\<close> reports failure, nothing is
  transmitted, and the function goes on to \<open>memcpy\<close> and returns.
\<close>

lemma safe_examples_example:
  "safe_examples \<lparr>mem = [(7, [Some CHR ''x'', None])], stdout = ''> '', stdout_ok = True,
                   trace = []\<rparr> =
     Inr \<lparr>mem = [(7, [Some CHR ''x'', None])],
          stdout = ''> Value: 42\<newline>'',
          stdout_ok = True,
          trace =
            [\<lparr>call = Snprintf (8, 0) 32 ''Hello %s'' [ArgStr ''World''],
               capacity = 32, written = 12, failed = False\<rparr>,
             \<lparr>call = Printf ''Value: %d\<newline>'' [ArgInt 42],
               capacity = \<infinity>, written = 10, failed = False\<rparr>,
             \<lparr>call = Memcpy (8, 0) (string_literal ''abcd'') 4,
               capacity = 32, written = 4, failed = False\<rparr>]\<rparr>"
  by (simp add: safe_examples_def alloca_def fresh_def Let_def body_def discard_def
      snprintf_def printf_def memcpy_def store_bytes_def emit_def dec_42 sizeof_buf_def
      string_literal_def replicate_32 room_def deref_def release_def flip: numeral_eq_enat)

lemma safe_examples_closed_stream:
  "safe_examples \<lparr>mem = [], stdout = [], stdout_ok = False, trace = []\<rparr> =
     Inr \<lparr>mem = [],
          stdout = [],
          stdout_ok = False,
          trace =
            [\<lparr>call = Snprintf (1, 0) 32 ''Hello %s'' [ArgStr ''World''],
               capacity = 32, written = 12, failed = False\<rparr>,
             \<lparr>call = Printf ''Value: %d\<newline>'' [ArgInt 42],
               capacity = \<infinity>, written = 0, failed = True\<rparr>,
             \<lparr>call = Memcpy (1, 0) (string_literal ''abcd'') 4,
               capacity = 32, written = 4, failed = False\<rparr>]\<rparr>"
  by (simp add: safe_examples_def alloca_def fresh_def Let_def body_def discard_def
      snprintf_def printf_def memcpy_def store_bytes_def emit_def dec_42 sizeof_buf_def
      string_literal_def replicate_32 room_def deref_def release_def flip: numeral_eq_enat)

section \<open>The properties\<close>

text \<open>
  In every statement \<open>w\<close> is an arbitrary world in which the function is called, and
  \<open>buf_of w\<close> is the address the local array gets in that call.
\<close>

text \<open>
  C1. In every execution of \<open>safe_examples\<close> each of the three library calls writes
  fewer bytes than its destination can take: \<open>snprintf\<close> 12 of 32, \<open>printf\<close> at most
  10 to the unbounded output stream, \<open>memcpy\<close> 4 of 32. No write leaves its buffer: the
  run ends without undefined behaviour, and the memory outside \<open>buf\<close> is as it was.
\<close>

theorem safe_examples_writes_within_capacity:
  "\<exists>w'. safe_examples w = Inr w' \<and>
      trace w' = trace w @
        [snprintf_event (buf_of w), printf_event (stdout_ok w), memcpy_event (buf_of w)] \<and>
      within_capacity (snprintf_event (buf_of w)) \<and>
      within_capacity (printf_event (stdout_ok w)) \<and>
      within_capacity (memcpy_event (buf_of w)) \<and> mem w' = mem w"
  by (simp add: after_return within_events)

text \<open>
  C2. The \<open>snprintf\<close> call is a bounded write of size \<open>sizeof(buf) = 32\<close>: it stores
  12 bytes, no more than 32, namely the whole formatted text \<open>Hello World\<close> with its
  terminator, and afterwards \<open>buf\<close> reads as the C string \<open>Hello World\<close>.
\<close>

theorem snprintf_stores_hello_world:
  "\<exists>w1. state_after 1 w = Inr (buf_of w, w1) \<and>
     format ''Hello %s'' [ArgStr ''World''] = Some (''Hello World'', []) \<and>
     length (string_literal ''Hello World'') = 12 \<and>
     new_events w w1 =
       [\<lparr>call = Snprintf (buf_of w) sizeof_buf ''Hello %s'' [ArgStr ''World''],
         capacity = 32, written = 12, failed = False\<rparr>] \<and>
     sizeof_buf = 32 \<and>
     deref (buf_of w) w1 = Some (string_literal ''Hello World'' @ replicate 20 None) \<and>
     map_option cstring (deref (buf_of w) w1) = Some (Some ''Hello World'')"
  unfolding after_1 format_hello
  by (simp add: new_events_def snprintf_event_def sizeof_buf_def deref_def snd_buf_of
      string_literal_def NUL_def)

text \<open>
  C3. The \<open>memcpy\<close> call copies exactly 4 bytes into a destination of capacity 32:
  afterwards the first four bytes of \<open>buf\<close> are \<open>a\<close>, \<open>b\<close>, \<open>c\<close>, \<open>d\<close>, and \<open>buf\<close>
  still has its 32 bytes.
\<close>

theorem memcpy_copies_four_bytes:
  "\<exists>w2 w3 ob. state_after 2 w = Inr (buf_of w, w2) \<and> state_after 3 w = Inr (buf_of w, w3) \<and>
     new_events w2 w3 =
       [\<lparr>call = Memcpy (buf_of w) (string_literal ''abcd'') 4, capacity = 32, written = 4,
         failed = False\<rparr>] \<and>
     deref (buf_of w) w3 = Some ob \<and> length ob = 32 \<and> take 4 ob = map Some ''abcd''"
  unfolding after_2 after_3
  by (simp add: new_events_def memcpy_event_def deref_def snd_buf_of string_literal_def)

text \<open>
  C4, as amended. The format of the \<open>printf\<close> call has one conversion, \<open>%d\<close>, which
  takes the one \<open>int\<close> argument 42 and leaves no argument over; every execution of
  \<open>safe_examples\<close> in which the output stream accepts the write appends exactly the text
  \<open>Value: 42\<close> and a newline to standard output.
\<close>

theorem printf_outputs_value_42_when_accepted:
  "format ''Value: %d\<newline>'' [ArgInt 42] = Some (''Value: 42\<newline>'', []) \<and>
   (stdout_ok w \<longrightarrow>
      (\<exists>w'. safe_examples w = Inr w' \<and> stdout w' = stdout w @ ''Value: 42\<newline>'') \<and>
      run_output w = Some ''Value: 42\<newline>'')"
  unfolding format_value after_return run_output_eq by simp

text \<open>An execution on an accepting stream, with earlier output \<open>> \<close>.\<close>

theorem printf_outputs_value_42_witness:
  "stdout_ok \<lparr>mem = [], stdout = ''> '', stdout_ok = True, trace = []\<rparr> \<and>
   run_output \<lparr>mem = [], stdout = ''> '', stdout_ok = True, trace = []\<rparr> =
     Some ''Value: 42\<newline>''"
  using printf_outputs_value_42_when_accepted [of "\<lparr>mem = [], stdout = ''> '', stdout_ok = True, trace = []\<rparr>"]
  by simp

text \<open>
  Without the condition the statement fails: on a stream that accepts nothing the
  function returns and has written no text.
\<close>

theorem printf_output_counterexample:
  "run_output \<lparr>mem = [], stdout = [], stdout_ok = False, trace = []\<rparr> = Some [] \<and>
   run_output \<lparr>mem = [], stdout = [], stdout_ok = False, trace = []\<rparr> \<noteq>
     Some ''Value: 42\<newline>''"
  by (simp add: run_output_def safe_examples_closed_stream new_output_def)

text \<open>
  C5, as amended. \<open>safe_examples\<close> has no error path of its own: no call violates a
  precondition, so after every number of statements the run is in a proper state, and
  the function returns normally in every execution, handling no error. \<open>snprintf\<close> and
  \<open>memcpy\<close> never report failure; \<open>printf\<close> reports failure exactly when the output
  stream does not accept the write, and the function discards that report. Where the
  stream accepts the write, no call fails.
\<close>

theorem safe_examples_no_error_of_its_own:
  "(\<forall>k. \<exists>fr. state_after k w = Inr fr) \<and> (\<exists>w'. safe_examples w = Inr w') \<and>
   (\<forall>e. safe_examples w \<noteq> Inl e) \<and>
   map_option (map failed) (run_events w) = Some [False, \<not> stdout_ok w, False] \<and>
   (stdout_ok w \<longrightarrow> no_call_fails w)"
proof -
  have "\<exists>fr. state_after k w = Inr fr" for k
  proof -
    consider "k = 0" | "k = 1" | "k = 2" | n where "k = 3 + n"
      using prefix_cases [of k] by blast
    then show ?thesis
      by cases (simp_all only: after_0 after_1 after_2 after_ge_3, simp_all)
  qed
  then show ?thesis
    by (simp add: after_return no_call_fails_def run_events_eq failed_events)
qed

text \<open>An execution on an accepting stream: no call fails.\<close>

theorem safe_examples_no_error_witness:
  "stdout_ok \<lparr>mem = [], stdout = [], stdout_ok = True, trace = []\<rparr> \<and>
   no_call_fails \<lparr>mem = [], stdout = [], stdout_ok = True, trace = []\<rparr>"
  using safe_examples_no_error_of_its_own [of "\<lparr>mem = [], stdout = [], stdout_ok = True, trace = []\<rparr>"]
  by simp

text \<open>
  Without the condition the statement fails: on a stream that accepts nothing the second
  call, \<open>printf\<close>, fails.
\<close>

theorem no_call_fails_counterexample:
  "\<not> no_call_fails \<lparr>mem = [], stdout = [], stdout_ok = False, trace = []\<rparr> \<and>
   map_option (map failed) (run_events \<lparr>mem = [], stdout = [], stdout_ok = False, trace = []\<rparr>)
     = Some [False, True, False]"
  by (simp add: no_call_fails_def run_events_def safe_examples_closed_stream new_events_def)

text \<open>
  C6. The translation unit defines the one function \<open>safe_examples\<close>. Every execution
  of it makes exactly three library calls, \<open>snprintf\<close>, then \<open>printf\<close>, then
  \<open>memcpy\<close>, and their arguments are the same constants in every execution (the
  destination being the address of the local array).
\<close>

theorem safe_examples_three_constant_calls:
  "map fst translation_unit = [''safe_examples''] \<and>
   (\<exists>w'. safe_examples w = Inr w' \<and>
     map call (new_events w w') =
       [Snprintf (buf_of w) 32 ''Hello %s'' [ArgStr ''World''],
        Printf ''Value: %d\<newline>'' [ArgInt 42],
        Memcpy (buf_of w) (string_literal ''abcd'') 4])"
  by (simp add: translation_unit_def after_return new_events_def snprintf_event_def
      printf_event_def memcpy_event_def)


text \<open>
  C8. The \<open>memcpy\<close> call leaves bytes 4 to 31 of \<open>buf\<close> as \<open>snprintf\<close> wrote them:
  bytes 4 to 11 are \<open>o World\<close> and the terminator, so \<open>buf\<close> reads as the C string
  \<open>abcdo World\<close> at the end of the function.
\<close>

theorem memcpy_preserves_tail:
  "\<exists>w1 w3 ob1 ob3. state_after 1 w = Inr (buf_of w, w1) \<and> state_after 3 w = Inr (buf_of w, w3) \<and>
     deref (buf_of w) w1 = Some ob1 \<and> deref (buf_of w) w3 = Some ob3 \<and>
     length ob3 = 32 \<and> drop 4 ob3 = drop 4 ob1 \<and>
     take 8 (drop 4 ob3) = string_literal ''o World'' \<and>
     cstring ob3 = Some ''abcdo World''"
  unfolding after_1 after_3
  by (simp add: deref_def snd_buf_of string_literal_def NUL_def)

text \<open>
  C9. \<open>safe_examples\<close> always terminates: its body is a sequence of three statements,
  and every execution returns after exactly three library calls.
\<close>

theorem safe_examples_terminates:
  "length body = 3 \<and>
   (\<exists>w'. safe_examples w = Inr w' \<and> length (trace w') = length (trace w) + length body)"
  by (simp add: after_return) (simp add: body_def)

text \<open>
  C10, as amended. \<open>safe_examples\<close> takes no parameters and reads no input: two
  executions, from any two worlds, end with the same initialised bytes in \<open>buf\<close>, the
  twelve bytes of \<open>abcdo World\<close> and its terminator; and two executions in which the
  output stream accepts the write append the same text to standard output.
\<close>

theorem safe_examples_deterministic_on_accepting_streams:
  "\<exists>u1 u2 f1 f2 ob1 ob2.
     safe_examples w1 = Inr u1 \<and> safe_examples w2 = Inr u2 \<and>
     (stdout_ok w1 \<and> stdout_ok w2 \<longrightarrow> new_output w1 u1 = new_output w2 u2) \<and>
     state_after 3 w1 = Inr (buf_of w1, f1) \<and> state_after 3 w2 = Inr (buf_of w2, f2) \<and>
     deref (buf_of w1) f1 = Some ob1 \<and> deref (buf_of w2) f2 = Some ob2 \<and>
     initialised ob1 = initialised ob2 \<and>
     map snd (initialised ob1) = ''abcdo World'' @ [NUL]"
  unfolding after_3 after_return
  by (simp add: new_output_def deref_def snd_buf_of initialised_final)

text \<open>Two executions on accepting streams, from different memories and earlier outputs.\<close>

theorem safe_examples_deterministic_witness:
  "stdout_ok \<lparr>mem = [], stdout = [], stdout_ok = True, trace = []\<rparr> \<and>
   stdout_ok \<lparr>mem = [(3, [None])], stdout = ''> '', stdout_ok = True, trace = []\<rparr> \<and>
   (\<exists>u1 u2.
      safe_examples \<lparr>mem = [], stdout = [], stdout_ok = True, trace = []\<rparr> = Inr u1 \<and>
      safe_examples \<lparr>mem = [(3, [None])], stdout = ''> '', stdout_ok = True, trace = []\<rparr> = Inr u2 \<and>
      new_output \<lparr>mem = [], stdout = [], stdout_ok = True, trace = []\<rparr> u1 =
      new_output \<lparr>mem = [(3, [None])], stdout = ''> '', stdout_ok = True, trace = []\<rparr> u2)"
  using safe_examples_deterministic_on_accepting_streams [of "\<lparr>mem = [], stdout = [], stdout_ok = True, trace = []\<rparr>"
                "\<lparr>mem = [(3, [None])], stdout = ''> '', stdout_ok = True, trace = []\<rparr>"]
  by auto

text \<open>
  Without the condition the statement fails: the output of an execution on an accepting
  stream differs from that of an execution on a stream that accepts nothing.
\<close>

theorem output_determinism_counterexample:
  "run_output \<lparr>mem = [], stdout = [], stdout_ok = True, trace = []\<rparr> \<noteq>
   run_output \<lparr>mem = [], stdout = [], stdout_ok = False, trace = []\<rparr>"
  by (simp add: run_output_eq)

end
